theory Spec2Isabelle
  imports Complex_Main
begin

section \<open>Data model of the publisher service (src/publisher.js)\<close>

text \<open>
  The publisher receives a JSON snapshot over HTTP. A snapshot holds rooms, a room holds
  tanks, a tank carries an identifier, a display name, a fill level and the time of its
  last update. The fields that the program only copies (identifiers, names, timestamps
  of the payload) are strings here. A JavaScript number is an IEEE binary64 value; the
  finite ones are rationals, and a level is one of them. Comparison of doubles is
  exact; subtraction and the reading of a decimal return the nearest double, which
  \<open>fl64\<close> below computes.
\<close>

record tank =
  tank_id :: string
  tank_name :: string
  tank_level :: rat
  tank_lastUpdated :: string

record room =
  room_id :: string
  room_tanks :: "tank list"

text \<open>
  \<open>req.body\<close> is whatever JSON the caller sent: the property \<open>rooms\<close> is \<open>None\<close>
  when the body has no such property, and so is the property \<open>tanks\<close> of a room;
  \<open>timestamp\<close> is only ever logged. A body all of whose rooms have their tanks gives
  the rooms of the data model above.
\<close>

record room_json =
  rj_id :: string
  rj_tanks :: "tank list option"

record body =
  b_timestamp :: "string option"
  b_rooms :: "room_json list option"

definition room_of :: "room_json \<Rightarrow> room option" where
  "room_of rj =
     (case rj_tanks rj of
        None \<Rightarrow> None
      | Some ts \<Rightarrow> Some \<lparr>room_id = rj_id rj, room_tanks = ts\<rparr>)"

fun rooms_of :: "room_json list \<Rightarrow> room list option" where
  "rooms_of [] = Some []"
| "rooms_of (rj # rjs) =
     (case room_of rj of
        None \<Rightarrow> None
      | Some r \<Rightarrow> (case rooms_of rjs of None \<Rightarrow> None | Some rs \<Rightarrow> Some (r # rs)))"

definition snapshot_rooms :: "body \<Rightarrow> room list option" where
  "snapshot_rooms data = (case b_rooms data of None \<Rightarrow> None | Some rjs \<Rightarrow> rooms_of rjs)"

text \<open>The module constants of lines 78-79, as an explicit configuration.\<close>

record config =
  LOW_LEVEL_THRESHOLD :: rat
  HIGH_LEVEL_THRESHOLD :: rat

definition publisher_config :: config where
  "publisher_config = \<lparr>LOW_LEVEL_THRESHOLD = 25, HIGH_LEVEL_THRESHOLD = 90\<rparr>"

definition MQTT_TOPIC :: string where
  "MQTT_TOPIC = ''tankscape/tanks''"

definition MQTT_ALERT_TOPIC :: string where
  "MQTT_ALERT_TOPIC = ''tankscape/alerts''"

text \<open>The objects built at lines 90-97 (one per low tank) and 86-98 (one per room).\<close>

record low_tank =
  lt_id :: string
  lt_name :: string
  lt_level :: rat
  lt_lastUpdated :: string
  lt_threshold :: rat
  lt_deficit :: rat

record low_room =
  lr_roomId :: string
  lr_totalTanks :: nat
  lr_lowLevelTanks :: nat
  lr_tanks :: "low_tank list"

section \<open>The threshold evaluator, lines 81-101\<close>

text \<open>
  The arithmetic of line 96 is that of IEEE binary64: an operation returns the double
  nearest to its exact result, and of two equally near the one whose significand is
  even. \<open>expo\<close> is the exponent of the binade of a magnitude, kept between -1022,
  where the subnormal numbers begin, and 1023; the doubles of that binade are the
  multiples of \<open>2 powi (expo x - 52)\<close>. A result of magnitude \<open>2^1024\<close> or more
  would be an overflow, which the rationals do not represent.
\<close>

primrec expo_from :: "nat \<Rightarrow> rat \<Rightarrow> int" where
  "expo_from 0 a = - 1022"
| "expo_from (Suc k) a =
     (if 2 powi (int (Suc k) - 1022) \<le> a then int (Suc k) - 1022 else expo_from k a)"

definition expo :: "rat \<Rightarrow> int" where
  "expo x = expo_from 2045 \<bar>x\<bar>"

definition round_ties_even :: "rat \<Rightarrow> int" where
  "round_ties_even y =
     (let f = \<lfloor>y\<rfloor>; r = y - of_int f
      in if r < 1 / 2 then f else if 1 / 2 < r then f + 1 else if even f then f else f + 1)"

definition fl64 :: "rat \<Rightarrow> rat" where
  "fl64 x = (let q = 2 powi (expo x - 52) in of_int (round_ties_even (x / q)) * q)"

definition is_double :: "rat \<Rightarrow> bool" where
  "is_double x \<longleftrightarrow> \<bar>x\<bar> < 2 ^ 1024 \<and> fl64 x = x"

text \<open>
  \<open>Number(x.toFixed(f))\<close> for a double \<open>x\<close>. \<open>toFixed\<close> strips the sign, prints
  numbers of magnitude at least \<open>10^21\<close> in full (so that \<open>Number\<close> reads the same
  double back), and otherwise prints the integer \<open>n\<close> with \<open>n / 10^f\<close> closest to the
  magnitude, the larger one of two; \<open>Number\<close> reads that decimal as the nearest
  double.
\<close>

definition Number_toFixed :: "rat \<Rightarrow> nat \<Rightarrow> rat" where
  "Number_toFixed x f =
     (if 10 ^ 21 \<le> \<bar>x\<bar> then x
      else fl64 (sgn x * (of_int \<lfloor>\<bar>x\<bar> * 10 ^ f + 1 / 2\<rfloor> / 10 ^ f)))"

definition is_low :: "config \<Rightarrow> tank \<Rightarrow> bool" where
  "is_low cfg t \<longleftrightarrow> tank_level t \<le> LOW_LEVEL_THRESHOLD cfg"

definition lowTanks :: "config \<Rightarrow> room \<Rightarrow> tank list" where
  "lowTanks cfg r = filter (is_low cfg) (room_tanks r)"

definition low_tank_of :: "config \<Rightarrow> tank \<Rightarrow> low_tank" where
  "low_tank_of cfg t =
     \<lparr>lt_id = tank_id t,
      lt_name = tank_name t,
      lt_level = tank_level t,
      lt_lastUpdated = tank_lastUpdated t,
      lt_threshold = LOW_LEVEL_THRESHOLD cfg,
      lt_deficit = Number_toFixed (fl64 (LOW_LEVEL_THRESHOLD cfg - tank_level t)) 2\<rparr>"

definition low_room_of :: "config \<Rightarrow> room \<Rightarrow> low_room" where
  "low_room_of cfg r =
     \<lparr>lr_roomId = room_id r,
      lr_totalTanks = length (room_tanks r),
      lr_lowLevelTanks = length (lowTanks cfg r),
      lr_tanks = map (low_tank_of cfg) (lowTanks cfg r)\<rparr>"

text \<open>The callback of \<open>rooms.reduce\<close>: push an entry when the room has a low tank.\<close>

definition reduce_room :: "config \<Rightarrow> low_room list \<Rightarrow> room \<Rightarrow> low_room list" where
  "reduce_room cfg acc r =
     (if length (lowTanks cfg r) > 0 then acc @ [low_room_of cfg r] else acc)"

definition lowLevelTanks :: "config \<Rightarrow> room list \<Rightarrow> low_room list" where
  "lowLevelTanks cfg rooms = foldl (reduce_room cfg) [] rooms"

section \<open>Effects: the clock, the console, MQTT, the log file, HTTP\<close>

text \<open>
  A time stamp is the number of milliseconds that \<open>new Date()\<close> reads;
  \<open>toISOString\<close> prints it without loss. The clock is a function from the number of
  reads made so far to the time read, so that two reads may differ.
\<close>

type_synonym timestamp = nat

datatype exn = TypeError | SyntaxError

datatype log_type = INFO | SUCCESS | WARNING | ERROR

record details =
  d_timestamp :: timestamp
  d_totalRooms :: nat
  d_totalTanks :: nat
  d_rooms :: "low_room list"

record alert =
  a_event :: string
  a_timestamp :: timestamp
  a_details :: details
  a_mqttTopic :: string

text \<open>Values that \<open>JSON.parse\<close> returns, and their truth value in a condition.\<close>

datatype json =
  JNull
  | JBool bool
  | JNum rat
  | JStr string
  | JArr "json list"
  | JObj "(string \<times> json) list"

fun truthy :: "json \<Rightarrow> bool" where
  "truthy JNull = False"
| "truthy (JBool b) = b"
| "truthy (JNum n) = (n \<noteq> 0)"
| "truthy (JStr s) = (s \<noteq> [])"
| "truthy (JArr xs) = True"
| "truthy (JObj kvs) = True"

text \<open>
  The third argument of \<open>logToConsole\<close> at its call sites: the summary objects of lines
  127-131 and 148-159 of the publisher, a caught error object, a parsed message, a
  string, and the message of the error thrown at line 113 of the webhook forwarder.
\<close>

datatype console_data =
  ReceivedData "string option" nat nat
  | LowLevelData nat "(string \<times> string \<times> rat) list"
  | ErrorObject exn
  | Parsed json
  | Text string
  | HttpError nat

fun truthy_data :: "console_data \<Rightarrow> bool" where
  "truthy_data (Parsed j) = truthy j"
| "truthy_data (Text s) = (s \<noteq> [])"
| "truthy_data _ = True"

text \<open>The argument of \<open>JSON.stringify\<close> in a publication stands for the string published.\<close>

datatype payload = SnapshotJSON body | AlertJSON alert

datatype log_record = AlertRecord alert | ErrorRecord timestamp exn

datatype response_body = Message string | Error string

datatype event =
  ConsoleLog log_type timestamp string
  | ConsoleData log_type console_data
  | Publish string payload
  | AppendFile timestamp log_record
  | Response nat response_body
  | Fetch string json

record world =
  ticks :: nat
  trace :: "event list"

definition new_Date :: "(nat \<Rightarrow> timestamp) \<Rightarrow> world \<Rightarrow> timestamp \<times> world" where
  "new_Date clk w = (clk (ticks w), w\<lparr>ticks := Suc (ticks w)\<rparr>)"

definition emit :: "event \<Rightarrow> world \<Rightarrow> world" where
  "emit e w = w\<lparr>trace := trace w @ [e]\<rparr>"

definition published :: "string \<Rightarrow> world \<Rightarrow> payload list" where
  "published topic w =
     concat (map (\<lambda>e. case e of Publish tp p \<Rightarrow> (if tp = topic then [p] else []) | _ \<Rightarrow> [])
       (trace w))"

definition logToConsole ::
  "(nat \<Rightarrow> timestamp) \<Rightarrow> log_type \<Rightarrow> string \<Rightarrow> console_data option \<Rightarrow> world \<Rightarrow> world" where
  "logToConsole clk ty message data w =
     (let (timestamp, w1) = new_Date clk w;
          w2 = emit (ConsoleLog ty timestamp message) w1
      in case data of
           None \<Rightarrow> w2
         | Some d \<Rightarrow> (if truthy_data d then emit (ConsoleData ty d) w2 else w2))"

text \<open>\<open>fs.appendFile\<close> is asynchronous; the entry is recorded when it is requested.\<close>

definition logAlert :: "(nat \<Rightarrow> timestamp) \<Rightarrow> log_record \<Rightarrow> world \<Rightarrow> world" where
  "logAlert clk data w =
     (let (timestamp, w1) = new_Date clk w
      in emit (AppendFile timestamp data) w1)"

section \<open>checkTankLevels, lines 81-119\<close>

definition totalTanks :: "room list \<Rightarrow> nat" where
  "totalTanks rooms = foldl (\<lambda>sum r. sum + length (room_tanks r)) 0 rooms"

text \<open>The object literal of lines 104-114, given the two clock readings it makes.\<close>

definition alertData :: "config \<Rightarrow> timestamp \<Rightarrow> timestamp \<Rightarrow> room list \<Rightarrow> alert" where
  "alertData cfg t1 t2 rooms =
     \<lparr>a_event = ''LOW_LEVEL_ALERT'',
      a_timestamp = t1,
      a_details =
        \<lparr>d_timestamp = t2,
         d_totalRooms = length rooms,
         d_totalTanks = totalTanks rooms,
         d_rooms = lowLevelTanks cfg rooms\<rparr>,
      a_mqttTopic = MQTT_ALERT_TOPIC\<rparr>"

definition checkTankLevels ::
  "config \<Rightarrow> (nat \<Rightarrow> timestamp) \<Rightarrow> room list \<Rightarrow> world \<Rightarrow> world" where
  "checkTankLevels cfg clk rooms w =
     (if length (lowLevelTanks cfg rooms) > 0 then
        (let (t1, w1) = new_Date clk w;
             (t2, w2) = new_Date clk w1;
             a = alertData cfg t1 t2 rooms;
             w3 = emit (Publish MQTT_ALERT_TOPIC (AlertJSON a)) w2
         in logAlert clk (AlertRecord a) w3)
      else w)"

section \<open>The handler of POST /publish, lines 122-174\<close>

text \<open>
  The rooms that remain in \<open>lowLevelData\<close> (lines 140-143), and the list logged at
  lines 152-158.
\<close>

definition lowLevelData_rooms :: "config \<Rightarrow> room list \<Rightarrow> room list" where
  "lowLevelData_rooms cfg rooms =
     filter (\<lambda>r. length (room_tanks r) > 0)
       (map (\<lambda>r. r\<lparr>room_tanks := filter (is_low cfg) (room_tanks r)\<rparr>) rooms)"

definition low_summary :: "room list \<Rightarrow> console_data" where
  "low_summary lows =
     LowLevelData
       (foldl (\<lambda>sum r. sum + length (room_tanks r)) 0 lows)
       (concat (map (\<lambda>r. map (\<lambda>t. (room_id r, tank_id t, tank_level t)) (room_tanks r)) lows))"

text \<open>
  The body of the \<open>try\<close>. Reading \<open>data.rooms.length\<close> (line 129) throws when the
  body has no rooms, and reading \<open>room.tanks.length\<close> (line 130) throws at the first
  room without tanks; both happen while the arguments of the first call are evaluated,
  before any effect. Past line 131 every room has its tanks.
\<close>

definition publish_try ::
  "config \<Rightarrow> (nat \<Rightarrow> timestamp) \<Rightarrow> body \<Rightarrow> world \<Rightarrow> exn + world" where
  "publish_try cfg clk data w =
     (case snapshot_rooms data of
        None \<Rightarrow> Inl TypeError
      | Some rooms \<Rightarrow>
          (let w1 = logToConsole clk INFO ''Received tank data:''
                      (Some (ReceivedData (b_timestamp data) (length rooms) (totalTanks rooms))) w;
               w2 = emit (Publish MQTT_TOPIC (SnapshotJSON data)) w1;
               w3 = logToConsole clk SUCCESS (''Published data to '' @ MQTT_TOPIC) None w2;
               lows = lowLevelData_rooms cfg rooms;
               w4 = (if length lows > 0
                     then checkTankLevels cfg clk rooms
                            (logToConsole clk WARNING ''Low level tanks detected:''
                               (Some (low_summary lows)) w3)
                     else w3)
           in Inr (emit (Response 200 (Message ''Data published successfully'')) w4)))"

text \<open>
  The handler: \<open>Inl\<close> would be an exception that leaves the handler. The \<open>catch\<close> block
  logs, appends an error record (whose time stamp is read before \<open>logAlert\<close> reads its
  own) and answers 500.
\<close>

definition publish_handler ::
  "config \<Rightarrow> (nat \<Rightarrow> timestamp) \<Rightarrow> body \<Rightarrow> world \<Rightarrow> exn + world" where
  "publish_handler cfg clk data w =
     (case publish_try cfg clk data w of
        Inr w' \<Rightarrow> Inr w'
      | Inl error \<Rightarrow>
          (let w1 = logToConsole clk ERROR ''Error publishing data:'' (Some (ErrorObject error)) w;
               (t, w2) = new_Date clk w1;
               w3 = logAlert clk (ErrorRecord t error) w2
           in Inr (emit (Response 500 (Error ''Failed to publish data'')) w3)))"

section \<open>The alert consumers (the two subscriber programs)\<close>

text \<open>
  \<open>JSON.parse\<close> is a parameter: \<open>None\<close> stands for the SyntaxError it throws on text
  that is not JSON. \<open>fetch\<close> is a parameter too: it rejects, or it answers with a status.
  \<open>sendWebhook\<close> is asynchronous and catches its own failures; its effects are recorded
  where it is called.
\<close>

definition WEBHOOK_URL :: string where
  "WEBHOOK_URL = ''your-webhook-url''"

datatype fetch_result = Rejected string | Responded nat

definition response_ok :: "nat \<Rightarrow> bool" where
  "response_ok status \<longleftrightarrow> 200 \<le> status \<and> status \<le> 299"

definition sendWebhook ::
  "(nat \<Rightarrow> timestamp) \<Rightarrow> (json \<Rightarrow> fetch_result) \<Rightarrow> json \<Rightarrow> world \<Rightarrow> world" where
  "sendWebhook clk fetch data w =
     (let w1 = emit (Fetch WEBHOOK_URL data) w
      in case fetch data of
           Rejected msg \<Rightarrow>
             logToConsole clk ERROR ''Failed to send webhook:'' (Some (Text msg)) w1
         | Responded status \<Rightarrow>
             (if \<not> response_ok status
              then logToConsole clk ERROR ''Failed to send webhook:'' (Some (HttpError status)) w1
              else logToConsole clk SUCCESS ''Webhook sent successfully'' None w1))"

definition on_message ::
  "(nat \<Rightarrow> timestamp) \<Rightarrow> (string \<Rightarrow> json option) \<Rightarrow> string \<Rightarrow> string \<Rightarrow> world \<Rightarrow> exn + world" where
  "on_message clk parse topic message w =
     (case parse message of
        Some data \<Rightarrow>
          Inr (logToConsole clk INFO (''Received message on '' @ topic @ '':'')
                 (Some (Parsed data)) w)
      | None \<Rightarrow>
          Inr (logToConsole clk ERROR (''Failed to parse message on '' @ topic @ '':'')
                 (Some (Text message)) w))"

definition on_message_webhook ::
  "(nat \<Rightarrow> timestamp) \<Rightarrow> (string \<Rightarrow> json option) \<Rightarrow> (json \<Rightarrow> fetch_result) \<Rightarrow>
   string \<Rightarrow> string \<Rightarrow> world \<Rightarrow> exn + world" where
  "on_message_webhook clk parse fetch topic message w =
     (case parse message of
        Some data \<Rightarrow>
          Inr (sendWebhook clk fetch data
                 (logToConsole clk INFO (''Received message on '' @ topic @ '':'')
                    (Some (Parsed data)) w))
      | None \<Rightarrow>
          Inr (logToConsole clk ERROR (''Failed to parse message on '' @ topic @ '':'')
                 (Some (Text message)) w))"

text \<open>
  The client calls the handler once per message, in order; an exception that left a
  handler would end the process and the messages after it would not be handled.
\<close>

fun deliver ::
  "(string \<Rightarrow> string \<Rightarrow> world \<Rightarrow> exn + world) \<Rightarrow> (string \<times> string) list \<Rightarrow> world \<Rightarrow> exn + world" where
  "deliver h [] w = Inr w"
| "deliver h ((topic, message) # ms) w =
     (case h topic message w of Inl e \<Rightarrow> Inl e | Inr w' \<Rightarrow> deliver h ms w')"

section \<open>Inputs used in the examples\<close>

definition clock_from :: "nat \<Rightarrow> nat \<Rightarrow> timestamp" where
  "clock_from t0 n = t0 + n"

definition world0 :: world where
  "world0 = \<lparr>ticks = 0, trace = []\<rparr>"

definition tank_at :: "string \<Rightarrow> rat \<Rightarrow> tank" where
  "tank_at i l = \<lparr>tank_id = i, tank_name = ''Tank '' @ i, tank_level = l, tank_lastUpdated = ''t''\<rparr>"

definition room_a :: room where
  "room_a = \<lparr>room_id = ''A'', room_tanks = [tank_at ''1'' 10, tank_at ''2'' 25, tank_at ''3'' 60]\<rparr>"

definition room_b :: room where
  "room_b = \<lparr>room_id = ''B'', room_tanks = [tank_at ''4'' 80, tank_at ''5'' (51 / 2)]\<rparr>"

text \<open>The double nearest to 0.005.\<close>

definition level_0_005 :: rat where
  "level_0_005 = 5764607523034235 / 2 ^ 60"

definition room_json_of :: "room \<Rightarrow> room_json" where
  "room_json_of r = \<lparr>rj_id = room_id r, rj_tanks = Some (room_tanks r)\<rparr>"

definition snapshot_ab :: body where
  "snapshot_ab =
     \<lparr>b_timestamp = Some ''now'', b_rooms = Some [room_json_of room_a, room_json_of room_b]\<rparr>"

definition snapshot_b :: body where
  "snapshot_b = \<lparr>b_timestamp = Some ''now'', b_rooms = Some [room_json_of room_b]\<rparr>"

definition snapshot_no_rooms :: body where
  "snapshot_no_rooms = \<lparr>b_timestamp = Some ''now'', b_rooms = None\<rparr>"

definition snapshot_no_tanks :: body where
  "snapshot_no_tanks =
     \<lparr>b_timestamp = Some ''now'',
      b_rooms = Some [room_json_of room_a, \<lparr>rj_id = ''C'', rj_tanks = None\<rparr>]\<rparr>"

text \<open>
  A parser that accepts no text. It agrees with \<open>JSON.parse\<close> on the texts of the
  examples below, the empty text and \<open>not json\<close>, which are not JSON.
\<close>

definition parse_nothing :: "string \<Rightarrow> json option" where
  "parse_nothing text = None"

definition fetch_ok :: "json \<Rightarrow> fetch_result" where
  "fetch_ok data = Responded 200"

section \<open>The reduction as a filter\<close>

lemma foldl_reduce_room:
  "foldl (reduce_room cfg) acc rooms =
     acc @ map (low_room_of cfg) (filter (\<lambda>r. lowTanks cfg r \<noteq> []) rooms)"
  by (induction rooms arbitrary: acc) (simp_all add: reduce_room_def)

lemma lowLevelTanks_eq:
  "lowLevelTanks cfg rooms =
     map (low_room_of cfg) (filter (\<lambda>r. lowTanks cfg r \<noteq> []) rooms)"
  by (simp add: lowLevelTanks_def foldl_reduce_room)

lemma lowTanks_nonempty_iff:
  "lowTanks cfg r \<noteq> [] \<longleftrightarrow> (\<exists>t \<in> set (room_tanks r). is_low cfg t)"
  by (simp add: lowTanks_def filter_empty_conv)

section \<open>What each operation does to the world\<close>

lemma logAlert_eq:
  "logAlert clk d w = \<lparr>ticks = Suc (ticks w), trace = trace w @ [AppendFile (clk (ticks w)) d]\<rparr>"
  by (simp add: logAlert_def new_Date_def emit_def)

lemma logToConsole_eq:
  "logToConsole clk ty m data w =
     \<lparr>ticks = Suc (ticks w),
      trace = trace w @ ConsoleLog ty (clk (ticks w)) m #
        (case data of None \<Rightarrow> [] | Some d \<Rightarrow> if truthy_data d then [ConsoleData ty d] else [])\<rparr>"
  by (simp add: logToConsole_def new_Date_def emit_def split: option.splits)

lemma has_low_iff:
  "lowLevelTanks cfg rooms \<noteq> [] \<longleftrightarrow>
     (\<exists>r \<in> set rooms. \<exists>t \<in> set (room_tanks r). tank_level t \<le> LOW_LEVEL_THRESHOLD cfg)"
  by (auto simp add: lowLevelTanks_eq filter_empty_conv lowTanks_def is_low_def)

lemma checkTankLevels_none:
  "lowLevelTanks cfg rooms = [] \<Longrightarrow> checkTankLevels cfg clk rooms w = w"
  by (simp add: checkTankLevels_def)

lemma checkTankLevels_some:
  "lowLevelTanks cfg rooms \<noteq> [] \<Longrightarrow>
   checkTankLevels cfg clk rooms w =
     \<lparr>ticks = ticks w + 3,
      trace = trace w @
        [Publish MQTT_ALERT_TOPIC (AlertJSON (alertData cfg (clk (ticks w)) (clk (ticks w + 1)) rooms)),
         AppendFile (clk (ticks w + 2)) (AlertRecord (alertData cfg (clk (ticks w)) (clk (ticks w + 1)) rooms))]\<rparr>"
  by (simp add: checkTankLevels_def new_Date_def logAlert_eq emit_def Let_def)

lemma lowLevelData_rooms_empty_iff:
  "lowLevelData_rooms cfg rooms = [] \<longleftrightarrow> lowLevelTanks cfg rooms = []"
  by (simp add: lowLevelData_rooms_def lowLevelTanks_eq filter_empty_conv lowTanks_def)

lemma published_alert_checkTankLevels:
  "published MQTT_ALERT_TOPIC (checkTankLevels cfg clk rooms w) =
     published MQTT_ALERT_TOPIC w @
       (if lowLevelTanks cfg rooms \<noteq> []
        then [AlertJSON (alertData cfg (clk (ticks w)) (clk (ticks w + 1)) rooms)] else [])"
  by (simp add: checkTankLevels_none checkTankLevels_some published_def)

lemma topics_distinct: "MQTT_TOPIC \<noteq> MQTT_ALERT_TOPIC"
  by (simp add: MQTT_TOPIC_def MQTT_ALERT_TOPIC_def)

lemma publish_try_rooms:
  "snapshot_rooms data = Some rooms \<Longrightarrow>
   publish_try cfg clk data w =
     Inr \<lparr>ticks = ticks w + (if lowLevelTanks cfg rooms \<noteq> [] then 6 else 2),
          trace = trace w @
            [ConsoleLog INFO (clk (ticks w)) ''Received tank data:'',
             ConsoleData INFO (ReceivedData (b_timestamp data) (length rooms) (totalTanks rooms)),
             Publish MQTT_TOPIC (SnapshotJSON data),
             ConsoleLog SUCCESS (clk (ticks w + 1)) (''Published data to '' @ MQTT_TOPIC)] @
            (if lowLevelTanks cfg rooms \<noteq> [] then
               [ConsoleLog WARNING (clk (ticks w + 2)) ''Low level tanks detected:'',
                ConsoleData WARNING (low_summary (lowLevelData_rooms cfg rooms)),
                Publish MQTT_ALERT_TOPIC
                  (AlertJSON (alertData cfg (clk (ticks w + 3)) (clk (ticks w + 4)) rooms)),
                AppendFile (clk (ticks w + 5))
                  (AlertRecord (alertData cfg (clk (ticks w + 3)) (clk (ticks w + 4)) rooms))]
             else []) @
            [Response 200 (Message ''Data published successfully'')]\<rparr>"
  by (simp add: publish_try_def Let_def logToConsole_eq emit_def lowLevelData_rooms_empty_iff
      checkTankLevels_some low_summary_def eval_nat_numeral)

lemma publish_handler_rooms:
  "snapshot_rooms data = Some rooms \<Longrightarrow>
   publish_handler cfg clk data w = publish_try cfg clk data w"
  by (simp add: publish_handler_def publish_try_rooms)

lemma publish_handler_no_rooms:
  "snapshot_rooms data = None \<Longrightarrow>
   publish_handler cfg clk data w =
     Inr \<lparr>ticks = ticks w + 3,
          trace = trace w @
            [ConsoleLog ERROR (clk (ticks w)) ''Error publishing data:'',
             ConsoleData ERROR (ErrorObject TypeError),
             AppendFile (clk (ticks w + 2)) (ErrorRecord (clk (ticks w + 1)) TypeError),
             Response 500 (Error ''Failed to publish data'')]\<rparr>"
  by (simp add: publish_handler_def publish_try_def logToConsole_eq logAlert_eq new_Date_def emit_def)

lemma published_handler:
  "snapshot_rooms data = Some rooms \<Longrightarrow>
   \<exists>w'. publish_handler cfg clk data w = Inr w' \<and>
     published MQTT_TOPIC w' = published MQTT_TOPIC w @ [SnapshotJSON data] \<and>
     published MQTT_ALERT_TOPIC w' = published MQTT_ALERT_TOPIC w @
       (if lowLevelTanks cfg rooms \<noteq> []
        then [AlertJSON (alertData cfg (clk (ticks w + 3)) (clk (ticks w + 4)) rooms)] else [])"
  using topics_distinct
  by (simp add: publish_handler_rooms publish_try_rooms published_def)


lemma LOW_publisher [simp]: "LOW_LEVEL_THRESHOLD publisher_config = 25"
  by (simp add: publisher_config_def)

section \<open>Rounding to the nearest double\<close>

lemma expo_from_lower: "- 1022 \<le> expo_from k a"
  by (induction k) simp_all

lemma expo_from_le:
  "a < 2 powi (e + 1) \<Longrightarrow> - 1022 \<le> e \<Longrightarrow> expo_from k a \<le> e"
proof (induction k)
  case 0
  then show ?case by simp
next
  case (Suc k)
  show ?case
  proof (cases "2 powi (int (Suc k) - 1022) \<le> a")
    case True
    with Suc.prems have less: "(2::rat) powi (int (Suc k) - 1022) < 2 powi (e + 1)" by simp
    have "\<not> e + 1 \<le> int (Suc k) - 1022"
    proof
      assume "e + 1 \<le> int (Suc k) - 1022"
      then have "(2::rat) powi (e + 1) \<le> 2 powi (int (Suc k) - 1022)"
        by (rule power_int_increasing) simp
      with less show False by simp
    qed
    with True show ?thesis by simp
  next
    case False
    with Suc show ?thesis by simp
  qed
qed

lemma expo_from_ge:
  "2 powi e \<le> a \<Longrightarrow> e \<le> int k - 1022 \<Longrightarrow> e \<le> expo_from k a"
proof (induction k)
  case 0
  then show ?case by simp
next
  case (Suc k)
  show ?case
  proof (cases "2 powi (int (Suc k) - 1022) \<le> a")
    case True
    with Suc.prems show ?thesis by simp
  next
    case False
    with Suc.prems have "e \<noteq> int (Suc k) - 1022" by auto
    with Suc.prems have "e \<le> int k - 1022" by simp
    with Suc.IH Suc.prems False show ?thesis by simp
  qed
qed

lemma expo_le: "\<bar>x\<bar> < 2 powi (e + 1) \<Longrightarrow> - 1022 \<le> e \<Longrightarrow> expo x \<le> e"
  unfolding expo_def by (rule expo_from_le)

lemma expo_eq:
  assumes "2 powi e \<le> \<bar>x\<bar>" and "\<bar>x\<bar> < 2 powi (e + 1)" and "- 1022 \<le> e" and "e \<le> 1023"
  shows "expo x = e"
proof (rule antisym)
  show "expo x \<le> e" using assms(2,3) by (rule expo_le)
  show "e \<le> expo x" unfolding expo_def using assms(1,4) by (intro expo_from_ge) simp_all
qed

lemma round_ties_even_of_int [simp]: "round_ties_even (of_int k) = k"
  by (simp add: round_ties_even_def)

lemma round_ties_even_error: "\<bar>of_int (round_ties_even y) - y\<bar> \<le> 1 / 2"
proof -
  have "of_int \<lfloor>y\<rfloor> \<le> y" "y < of_int \<lfloor>y\<rfloor> + 1" by linarith+
  then show ?thesis
    by (auto simp add: round_ties_even_def Let_def abs_le_iff)
qed

lemma round_ties_even_nonneg: "0 \<le> y \<Longrightarrow> 0 \<le> round_ties_even y"
proof -
  assume "0 \<le> y"
  then have "0 \<le> \<lfloor>y\<rfloor>" by simp
  then show ?thesis by (auto simp add: round_ties_even_def Let_def)
qed

lemma fl64_nonneg: "0 \<le> x \<Longrightarrow> 0 \<le> fl64 x"
  by (simp add: fl64_def Let_def round_ties_even_nonneg)

lemma fl64_error: "\<bar>fl64 x - x\<bar> \<le> 2 powi (expo x - 53)"
proof -
  define q :: rat where "q = 2 powi (expo x - 52)"
  have q: "0 < q" by (simp add: q_def)
  have half: "q / 2 = 2 powi (expo x - 53)"
  proof -
    have "(2::rat) powi (expo x - 52) = 2 powi ((expo x - 53) + 1)" by simp
    also have "\<dots> = 2 powi (expo x - 53) * 2" by (rule power_int_add_1) simp
    finally show ?thesis by (simp add: q_def)
  qed
  have "\<bar>of_int (round_ties_even (x / q)) - x / q\<bar> \<le> 1 / 2"
    by (rule round_ties_even_error)
  then have "\<bar>of_int (round_ties_even (x / q)) - x / q\<bar> * q \<le> 1 / 2 * q"
    using q by (simp add: mult_right_mono)
  moreover have "\<bar>of_int (round_ties_even (x / q)) - x / q\<bar> * q =
      \<bar>of_int (round_ties_even (x / q)) * q - x\<bar>"
  proof -
    have "\<bar>of_int (round_ties_even (x / q)) - x / q\<bar> * q =
        \<bar>(of_int (round_ties_even (x / q)) - x / q) * q\<bar>"
      using q by (simp add: abs_mult)
    also have "(of_int (round_ties_even (x / q)) - x / q) * q =
        of_int (round_ties_even (x / q)) * q - x"
      using q by (simp add: left_diff_distrib)
    finally show ?thesis .
  qed
  ultimately have "\<bar>of_int (round_ties_even (x / q)) * q - x\<bar> \<le> q / 2"
    by simp
  moreover have "fl64 x = of_int (round_ties_even (x / q)) * q"
    by (simp add: fl64_def q_def Let_def)
  ultimately show ?thesis by (simp only: half)
qed

lemma fl64_exact:
  assumes "x / 2 powi (expo x - 52) \<in> \<int>"
  shows "fl64 x = x"
proof -
  from assms obtain m :: int where m: "x / 2 powi (expo x - 52) = of_int m"
    by (auto elim: Ints_cases)
  have "(2::rat) powi (expo x - 52) \<noteq> 0" by simp
  with m have "of_int m * 2 powi (expo x - 52) = x"
    by (simp add: nonzero_divide_eq_eq)
  with m show ?thesis by (simp add: fl64_def Let_def)
qed

lemma fl64_int:
  assumes "x \<in> \<int>" and "\<bar>x\<bar> < 2 ^ 53"
  shows "fl64 x = x"
proof (rule fl64_exact)
  from assms(1) obtain m :: int where m: "x = of_int m" by (auto elim: Ints_cases)
  have "\<bar>x\<bar> < 2 powi (52 + 1)" using assms(2) by simp
  then have "expo x \<le> 52" by (rule expo_le) simp
  then have "(2::rat) powi (expo x - 52) = 1 / 2 ^ nat (52 - expo x)"
    by (simp add: power_int_def field_simps)
  then have "x / 2 powi (expo x - 52) = of_int (m * 2 ^ nat (52 - expo x))"
    by (simp add: m)
  then show "x / 2 powi (expo x - 52) \<in> \<int>" by (simp only: Ints_of_int)
qed

lemma Number_toFixed_nonneg: "0 \<le> x \<Longrightarrow> 0 \<le> Number_toFixed x f"
  by (auto simp add: Number_toFixed_def sgn_if intro!: fl64_nonneg)

lemma Number_toFixed_round:
  assumes "0 \<le> x" and "x < 10 ^ 21"
  shows "Number_toFixed x 2 = fl64 (of_int (round (x * 100)) / 100)"
proof (cases "x = 0")
  case True
  then show ?thesis by (simp add: Number_toFixed_def)
next
  case False
  with assms have "0 < x" by simp
  with assms(2) show ?thesis by (simp add: Number_toFixed_def round_def)
qed

lemma fl64_error_below_32:
  assumes "\<bar>x\<bar> < 32"
  shows "\<bar>fl64 x - x\<bar> \<le> 1 / 2 ^ 49"
proof -
  from assms have "\<bar>x\<bar> < 2 powi (4 + 1)" by simp
  then have "expo x \<le> 4" by (rule expo_le) simp
  then have "(2::rat) powi (expo x - 53) \<le> 2 powi (- 49)"
    by (intro power_int_increasing) simp_all
  also have "(2::rat) powi (- 49) = 1 / 2 ^ 49"
    by (simp add: power_int_minus_divide)
  finally show ?thesis using fl64_error [of x] by simp
qed

lemma deficit_in_range:
  assumes "0 \<le> x" and "x \<le> 25"
  shows "Number_toFixed (fl64 x) 2 = fl64 (of_int (round (fl64 x * 100)) / 100)"
    and "\<bar>Number_toFixed (fl64 x) 2 - x\<bar> \<le> 1 / 200 + 1 / 2 ^ 48"
proof -
  define d where "d = fl64 x"
  define r :: rat where "r = of_int (round (d * 100)) / 100"
  have d0: "0 \<le> d" unfolding d_def using assms(1) by (rule fl64_nonneg)
  have e1: "\<bar>d - x\<bar> \<le> 1 / 2 ^ 49"
    unfolding d_def using assms by (intro fl64_error_below_32) simp
  then have "d - x \<le> 1 / 2 ^ 49" by (rule abs_le_D1)
  with assms(2) have d25: "d \<le> 25 + 1 / 2 ^ 49" by linarith
  then have "d < 10 ^ 21" by simp
  with d0 have eq: "Number_toFixed d 2 = fl64 r"
    unfolding r_def by (rule Number_toFixed_round)
  then show "Number_toFixed (fl64 x) 2 = fl64 (of_int (round (fl64 x * 100)) / 100)"
    by (simp only: d_def r_def)
  have "\<bar>of_int (round (d * 100)) - d * 100\<bar> \<le> 1 / 2"
    by (rule of_int_round_abs_le)
  then have e2: "\<bar>r - d\<bar> \<le> 1 / 200"
    by (simp add: r_def abs_le_iff field_simps)
  have "r \<le> d + 1 / 200" "d - 1 / 200 \<le> r" using e2 by linarith+
  moreover have "(1::rat) / 2 ^ 49 \<le> 1" by simp
  with d25 have "d \<le> 26" by linarith
  ultimately have "r < 32" "- 32 < r" using d0 by linarith+
  then have "\<bar>r\<bar> < 32" by (simp add: abs_less_iff)
  then have e3: "\<bar>fl64 r - r\<bar> \<le> 1 / 2 ^ 49"
    by (rule fl64_error_below_32)
  have "\<bar>fl64 r - x\<bar> \<le> \<bar>fl64 r - r\<bar> + \<bar>r - d\<bar> + \<bar>d - x\<bar>"
    by linarith
  also have "\<dots> \<le> 1 / 2 ^ 49 + 1 / 200 + 1 / 2 ^ 49"
    using e1 e2 e3 by linarith
  also have "\<dots> = 1 / 200 + 1 / 2 ^ 48" by simp
  finally have "\<bar>Number_toFixed d 2 - x\<bar> \<le> 1 / 200 + 1 / 2 ^ 48"
    by (simp only: eq)
  then show "\<bar>Number_toFixed (fl64 x) 2 - x\<bar> \<le> 1 / 200 + 1 / 2 ^ 48"
    by (simp only: d_def)
qed

lemma deficit_int:
  assumes "x \<in> \<int>" and "0 \<le> x" and "x < 2 ^ 53"
  shows "Number_toFixed (fl64 x) 2 = x"
proof -
  from assms(1) obtain m :: int where m: "x = of_int m" by (auto elim: Ints_cases)
  have fx: "fl64 x = x" using assms by (intro fl64_int) simp_all
  have "x * 100 = of_int (m * 100)" by (simp add: m)
  then have r: "round (x * 100) = m * 100" by (simp only: round_of_int)
  show ?thesis
  proof (cases "10 ^ 21 \<le> \<bar>x\<bar>")
    case True
    then show ?thesis by (simp add: Number_toFixed_def fx)
  next
    case False
    with assms(2) have "Number_toFixed x 2 = fl64 (of_int (round (x * 100)) / 100)"
      by (intro Number_toFixed_round) simp_all
    then show ?thesis by (simp add: fx r m [symmetric])
  qed
qed

lemma expo_from_cases: "expo_from k a = - 1022 \<or> 2 powi (expo_from k a) \<le> a"
  by (induction k) simp_all

lemma pow_expo_le: "2 powi (expo x) \<le> \<bar>x\<bar> + 1"
proof -
  from expo_from_cases [of 2045 "\<bar>x\<bar>"]
  have "expo x = - 1022 \<or> 2 powi (expo x) \<le> \<bar>x\<bar>" by (simp only: expo_def)
  then show ?thesis
  proof
    assume e: "expo x = - 1022"
    have "(2::rat) powi (- 1022) \<le> 2 powi 0"
      by (rule power_int_increasing) simp_all
    then show ?thesis by (simp add: e)
  next
    assume "2 powi (expo x) \<le> \<bar>x\<bar>"
    then show ?thesis by simp
  qed
qed

lemma fl64_rel_error: "\<bar>fl64 x - x\<bar> \<le> (\<bar>x\<bar> + 1) / 2 ^ 53"
proof -
  have "(2::rat) powi (expo x - 53) = 2 powi (expo x) / 2 powi 53"
    by (rule power_int_diff) simp
  also have "\<dots> \<le> (\<bar>x\<bar> + 1) / 2 powi 53"
    using pow_expo_le [of x] by (intro divide_right_mono) simp_all
  finally have "(2::rat) powi (expo x - 53) \<le> (\<bar>x\<bar> + 1) / 2 ^ 53" by simp
  with fl64_error [of x] show ?thesis by linarith
qed

lemma deficit_general:
  assumes "0 \<le> x"
  shows "Number_toFixed (fl64 x) 2 =
           (if 10 ^ 21 \<le> fl64 x then fl64 x
            else fl64 (of_int (round (fl64 x * 100)) / 100))"
    and "\<bar>Number_toFixed (fl64 x) 2 - x\<bar> \<le> 1 / 200 + (x + 1) / 2 ^ 51"
proof -
  define d where "d = fl64 x"
  define r :: rat where "r = of_int (round (d * 100)) / 100"
  define w :: rat where "w = (x + 1) / 2 ^ 53"
  have w0: "0 \<le> w" using assms by (simp add: w_def)
  have w4: "4 * w \<le> x + 1" using assms by (simp add: w_def)
  have d0: "0 \<le> d" unfolding d_def using assms by (rule fl64_nonneg)
  have e1: "\<bar>d - x\<bar> \<le> w"
    using fl64_rel_error [of x] assms by (simp add: d_def w_def)
  have eq: "Number_toFixed d 2 = (if 10 ^ 21 \<le> d then d else fl64 r)"
  proof (cases "10 ^ 21 \<le> d")
    case True
    with d0 show ?thesis by (simp add: Number_toFixed_def)
  next
    case False
    then have "d < 10 ^ 21" by simp
    with d0 have "Number_toFixed d 2 = fl64 r"
      unfolding r_def by (rule Number_toFixed_round)
    with False show ?thesis by simp
  qed
  then show "Number_toFixed (fl64 x) 2 =
           (if 10 ^ 21 \<le> fl64 x then fl64 x
            else fl64 (of_int (round (fl64 x * 100)) / 100))"
    by (simp only: d_def r_def)
  have bound: "\<bar>Number_toFixed d 2 - x\<bar> \<le> 1 / 200 + 4 * w"
  proof (cases "10 ^ 21 \<le> d")
    case True
    then have "Number_toFixed d 2 = d" by (simp add: eq)
    with e1 w0 show ?thesis by linarith
  next
    case False
    then have nf: "Number_toFixed d 2 = fl64 r" by (simp add: eq)
    have "\<bar>of_int (round (d * 100)) - d * 100\<bar> \<le> 1 / 2"
      by (rule of_int_round_abs_le)
    then have e2: "\<bar>r - d\<bar> \<le> 1 / 200"
      by (simp add: r_def abs_le_iff field_simps)
    have "0 \<le> round (d * 100)" using d0 by (simp add: round_def)
    then have r0: "0 \<le> r" by (simp add: r_def)
    have "r + 1 \<le> 2 * x + 2" using e1 e2 w4 assms by linarith
    then have "(r + 1) / 2 ^ 53 \<le> (2 * x + 2) / 2 ^ 53"
      by (intro divide_right_mono) simp_all
    also have "\<dots> = 2 * w" by (simp add: w_def)
    finally have "(\<bar>r\<bar> + 1) / 2 ^ 53 \<le> 2 * w" using r0 by simp
    with fl64_rel_error [of r] have e3: "\<bar>fl64 r - r\<bar> \<le> 2 * w" by linarith
    have "\<bar>fl64 r - x\<bar> \<le> 1 / 200 + 4 * w" using e1 e2 e3 by linarith
    then show ?thesis by (simp only: nf)
  qed
  have "4 * w = (x + 1) / 2 ^ 51" by (simp add: w_def)
  with bound show "\<bar>Number_toFixed (fl64 x) 2 - x\<bar> \<le> 1 / 200 + (x + 1) / 2 ^ 51"
    by (simp only: d_def)
qed

lemma level_0_005_double: "is_double level_0_005"
proof -
  have e: "expo level_0_005 = - 8"
    by (rule expo_eq) (simp_all add: level_0_005_def power_int_minus_divide)
  have "level_0_005 / 2 powi (- 8 - 52) = of_int 5764607523034235"
    by (simp add: level_0_005_def power_int_minus_divide)
  then have "level_0_005 / 2 powi (expo level_0_005 - 52) \<in> \<int>"
    by (simp only: e Ints_of_int)
  then have "fl64 level_0_005 = level_0_005" by (rule fl64_exact)
  moreover have "\<bar>level_0_005\<bar> < 2 ^ 1024" by (simp add: level_0_005_def)
  ultimately show ?thesis by (simp add: is_double_def)
qed

lemma fl64_25_minus_0_005: "fl64 (25 - level_0_005) = 7035467042882847 / 2 ^ 48"
proof -
  have e: "expo (25 - level_0_005) = 4"
    by (rule expo_eq) (simp_all add: level_0_005_def)
  have q: "(2::rat) powi (4 - 52) = 1 / 2 ^ 48"
    by (simp add: power_int_minus_divide)
  have arg: "(25 - level_0_005) / (1 / 2 ^ 48) = 28817273007648140165 / 4096"
    by (simp add: level_0_005_def)
  have r: "round_ties_even (28817273007648140165 / 4096) = 7035467042882847"
    by code_simp
  have "fl64 (25 - level_0_005) = of_int 7035467042882847 * (1 / 2 ^ 48)"
    by (simp only: fl64_def Let_def e q arg r)
  then show ?thesis by simp
qed

lemma deficit_0_005: "Number_toFixed (fl64 (25 - level_0_005)) 2 = 25"
proof -
  have r: "round (7035467042882847 / 2 ^ 48 * 100 :: rat) = 2500"
    by code_simp
  have "Number_toFixed (7035467042882847 / 2 ^ 48) 2 =
      fl64 (of_int (round (7035467042882847 / 2 ^ 48 * 100 :: rat)) / 100)"
    by (rule Number_toFixed_round) simp_all
  then have "Number_toFixed (7035467042882847 / 2 ^ 48) 2 = fl64 (of_int 2500 / 100)"
    by (simp only: r)
  moreover have "fl64 25 = 25" by (rule fl64_int) simp_all
  ultimately show ?thesis by (simp add: fl64_25_minus_0_005)
qed

lemma exact_0_005: "of_int (round ((25 - level_0_005) * 100)) / 100 = (2499 / 100 :: rat)"
proof -
  have arg: "(25 - level_0_005) * 100 = 720431825191203504125 / 288230376151711744"
    by (simp add: level_0_005_def)
  have "round (720431825191203504125 / 288230376151711744 :: rat) = 2499" by code_simp
  then show ?thesis by (simp only: arg)
qed

section \<open>Facts about the example inputs\<close>

lemma room_of_json [simp]: "room_of (room_json_of r) = Some r"
  by (simp add: room_of_def room_json_of_def)

lemma snapshot_rooms_examples:
  "snapshot_rooms snapshot_ab = Some [room_a, room_b]"
  "snapshot_rooms snapshot_b = Some [room_b]"
  "snapshot_rooms snapshot_no_rooms = None"
  "snapshot_rooms snapshot_no_tanks = None"
proof -
  have "room_of \<lparr>rj_id = ''C'', rj_tanks = None\<rparr> = None"
    by (simp add: room_of_def)
  then show "snapshot_rooms snapshot_no_tanks = None"
    by (simp add: snapshot_rooms_def snapshot_no_tanks_def)
qed (simp_all add: snapshot_rooms_def snapshot_ab_def snapshot_b_def snapshot_no_rooms_def)

section \<open>Claims about the threshold rule\<close>

text \<open>
  C1. A tank of a room of the snapshot is selected exactly when its level is at most the
  low threshold, 25: it is among the room's low tanks, and its detail is listed in the
  entry of its room, if and only if its level is at most 25. A level of exactly 25 is
  selected, a level above 25 is not.
\<close>

theorem threshold_inclusive:
  assumes "r \<in> set rooms" and "t \<in> set (room_tanks r)"
  shows "(t \<in> set (lowTanks publisher_config r) \<longleftrightarrow> tank_level t \<le> 25) \<and>
         ((\<exists>e \<in> set (lowLevelTanks publisher_config rooms).
             lr_roomId e = room_id r \<and> low_tank_of publisher_config t \<in> set (lr_tanks e))
          \<longleftrightarrow> tank_level t \<le> 25)"
proof (intro conjI)
  show "t \<in> set (lowTanks publisher_config r) \<longleftrightarrow> tank_level t \<le> 25"
    using assms(2) by (simp add: lowTanks_def is_low_def)
next
  show "(\<exists>e \<in> set (lowLevelTanks publisher_config rooms).
             lr_roomId e = room_id r \<and> low_tank_of publisher_config t \<in> set (lr_tanks e))
          \<longleftrightarrow> tank_level t \<le> 25" (is "?L \<longleftrightarrow> ?R")
  proof
    assume ?L
    then obtain e where e: "e \<in> set (lowLevelTanks publisher_config rooms)"
      and d: "low_tank_of publisher_config t \<in> set (lr_tanks e)" by blast
    from e obtain r' where "e = low_room_of publisher_config r'"
      by (auto simp add: lowLevelTanks_eq)
    with d obtain t' where "is_low publisher_config t'"
      and "low_tank_of publisher_config t = low_tank_of publisher_config t'"
      by (auto simp add: low_room_of_def lowTanks_def)
    then show ?R by (simp add: low_tank_of_def is_low_def)
  next
    assume ?R
    with assms(2) have "t \<in> set (lowTanks publisher_config r)"
      by (simp add: lowTanks_def is_low_def)
    moreover from this assms(1)
    have "low_room_of publisher_config r \<in> set (lowLevelTanks publisher_config rooms)"
      by (auto simp add: lowLevelTanks_eq)
    ultimately show ?L
      by (intro bexI [of _ "low_room_of publisher_config r"]) (simp_all add: low_room_of_def)
  qed
qed

text \<open>Room A holds a tank at exactly 25 (selected), room B one at 25.5 (not selected).\<close>

theorem threshold_inclusive_witness:
  "room_a \<in> set [room_a, room_b] \<and> tank_at ''2'' 25 \<in> set (room_tanks room_a) \<and>
   tank_at ''2'' 25 \<in> set (lowTanks publisher_config room_a) \<and>
   room_b \<in> set [room_a, room_b] \<and> tank_at ''5'' (51 / 2) \<in> set (room_tanks room_b) \<and>
   tank_at ''5'' (51 / 2) \<notin> set (lowTanks publisher_config room_b)"
  using threshold_inclusive [of room_a "[room_a, room_b]" "tank_at ''2'' 25"]
    threshold_inclusive [of room_b "[room_a, room_b]" "tank_at ''5'' (51 / 2)"]
  by (simp add: room_a_def room_b_def tank_at_def)

text \<open>
  C2, as the program has it. The deficit of a selected tank is computed from
  25 - level, not from level - 25, in double arithmetic: the difference is rounded to
  the nearest double; below \<open>10^21\<close> that double is rounded to the nearest hundredth
  (halves upwards) and the hundredth to the nearest double. The deficit is not
  negative; it lies within \<open>1/200 + (25 - level + 1) / 2^51\<close> of 25 - level, and
  within \<open>1/200 + 1/2^48\<close> when the level is not negative; it is exactly 25 - level
  when the level is an integer above \<open>25 - 2^53\<close>.
\<close>

theorem deficit_double_rounded:
  assumes "tank_level t \<le> 25"
  shows "lt_deficit (low_tank_of publisher_config t) =
           (if 10 ^ 21 \<le> fl64 (25 - tank_level t) then fl64 (25 - tank_level t)
            else fl64 (of_int (round (fl64 (25 - tank_level t) * 100)) / 100)) \<and>
         0 \<le> lt_deficit (low_tank_of publisher_config t) \<and>
         \<bar>lt_deficit (low_tank_of publisher_config t) - (25 - tank_level t)\<bar>
           \<le> 1 / 200 + (25 - tank_level t + 1) / 2 ^ 51 \<and>
         (0 \<le> tank_level t \<longrightarrow>
            \<bar>lt_deficit (low_tank_of publisher_config t) - (25 - tank_level t)\<bar>
              \<le> 1 / 200 + 1 / 2 ^ 48) \<and>
         (tank_level t \<in> \<int> \<and> 25 - tank_level t < 2 ^ 53 \<longrightarrow>
            lt_deficit (low_tank_of publisher_config t) = 25 - tank_level t)"
proof (intro conjI impI)
  let ?x = "25 - tank_level t"
  have x0: "0 \<le> ?x" using assms by simp
  have def: "lt_deficit (low_tank_of publisher_config t) = Number_toFixed (fl64 ?x) 2"
    by (simp add: low_tank_of_def)
  show "lt_deficit (low_tank_of publisher_config t) =
           (if 10 ^ 21 \<le> fl64 ?x then fl64 ?x
            else fl64 (of_int (round (fl64 ?x * 100)) / 100))"
    using deficit_general(1) [OF x0] by (simp only: def)
  show "0 \<le> lt_deficit (low_tank_of publisher_config t)"
    using x0 by (simp only: def) (intro Number_toFixed_nonneg fl64_nonneg)
  show "\<bar>lt_deficit (low_tank_of publisher_config t) - ?x\<bar> \<le> 1 / 200 + (?x + 1) / 2 ^ 51"
    using deficit_general(2) [OF x0] by (simp only: def)
  {
    assume "0 \<le> tank_level t"
    then have "?x \<le> 25" by simp
    with x0 show "\<bar>lt_deficit (low_tank_of publisher_config t) - ?x\<bar> \<le> 1 / 200 + 1 / 2 ^ 48"
      unfolding def by (rule deficit_in_range(2))
  }
  {
    assume "tank_level t \<in> \<int> \<and> ?x < 2 ^ 53"
    then have "?x \<in> \<int>" and "?x < 2 ^ 53" by simp_all
    with x0 show "lt_deficit (low_tank_of publisher_config t) = ?x"
      by (simp only: def deficit_int)
  }
qed

text \<open>A tank at level 10 has deficit 15.\<close>

theorem deficit_double_rounded_witness:
  "tank_level (tank_at ''1'' 10) \<le> 25 \<and> 0 \<le> tank_level (tank_at ''1'' 10) \<and>
   tank_level (tank_at ''1'' 10) \<in> \<int> \<and> 25 - tank_level (tank_at ''1'' 10) < 2 ^ 53 \<and>
   lt_deficit (low_tank_of publisher_config (tank_at ''1'' 10)) = 15"
  using deficit_double_rounded [of "tank_at ''1'' 10"]
  by (simp add: tank_at_def)

text \<open>
  The claim as the specification words it fails at the double nearest to 0.005, a level
  the program can receive: 25 - level is just below 24.995 and its rounding to two
  decimals is 24.99, but the double nearest to 25 - level is just above 24.995 and the
  program records 25, more than half a hundredth away from 25 - level.
\<close>

theorem deficit_exact_rounding_counterexample:
  "is_double level_0_005 \<and>
   tank_level (tank_at ''1'' level_0_005) \<le> 25 \<and>
   lt_deficit (low_tank_of publisher_config (tank_at ''1'' level_0_005)) = 25 \<and>
   of_int (round ((25 - level_0_005) * 100)) / 100 = (2499 / 100 :: rat) \<and>
   1 / 200 < \<bar>lt_deficit (low_tank_of publisher_config (tank_at ''1'' level_0_005)) -
              (25 - level_0_005)\<bar>"
proof -
  have le: "level_0_005 \<le> 25" by (simp add: level_0_005_def)
  have d: "lt_deficit (low_tank_of publisher_config (tank_at ''1'' level_0_005)) = 25"
    by (simp add: low_tank_of_def tank_at_def deficit_0_005)
  have "(1::rat) / 200 < level_0_005" by (simp add: level_0_005_def)
  then have far: "1 / 200 < \<bar>25 - (25 - level_0_005)\<bar>" by simp
  have tl: "tank_level (tank_at ''1'' level_0_005) = level_0_005"
    by (simp add: tank_at_def)
  show ?thesis
    unfolding d tl using level_0_005_double le exact_0_005 far by simp
qed

text \<open>
  C3. The entries of the alert are those of the rooms that have a tank at or below 25, in
  the order of the snapshot, and no others. The entry of a room records the room's
  identifier, the number of its tanks, the number of its low tanks and, for each low
  tank, identifier, name, level, time of last update, the threshold 25 and the deficit.
  The alert that is published carries exactly these entries.
\<close>

theorem alert_summary:
  "lowLevelTanks publisher_config rooms =
     map (low_room_of publisher_config)
       (filter (\<lambda>r. \<exists>t \<in> set (room_tanks r). tank_level t \<le> 25) rooms) \<and>
   low_room_of publisher_config r =
     \<lparr>lr_roomId = room_id r,
      lr_totalTanks = length (room_tanks r),
      lr_lowLevelTanks = length (filter (\<lambda>t. tank_level t \<le> 25) (room_tanks r)),
      lr_tanks =
        map (\<lambda>t. \<lparr>lt_id = tank_id t, lt_name = tank_name t, lt_level = tank_level t,
                   lt_lastUpdated = tank_lastUpdated t, lt_threshold = 25,
                   lt_deficit = Number_toFixed (fl64 (25 - tank_level t)) 2\<rparr>)
          (filter (\<lambda>t. tank_level t \<le> 25) (room_tanks r))\<rparr> \<and>
   published MQTT_ALERT_TOPIC (checkTankLevels publisher_config clk rooms w) =
     published MQTT_ALERT_TOPIC w @
       (if \<exists>r \<in> set rooms. \<exists>t \<in> set (room_tanks r). tank_level t \<le> 25
        then [AlertJSON (alertData publisher_config (clk (ticks w)) (clk (ticks w + 1)) rooms)]
        else []) \<and>
   d_rooms (a_details (alertData publisher_config t1 t2 rooms)) =
     lowLevelTanks publisher_config rooms"
proof (intro conjI)
  have "(\<lambda>r. lowTanks publisher_config r \<noteq> []) =
        (\<lambda>r. \<exists>t \<in> set (room_tanks r). tank_level t \<le> 25)"
    by (simp add: lowTanks_nonempty_iff is_low_def)
  then show "lowLevelTanks publisher_config rooms =
     map (low_room_of publisher_config)
       (filter (\<lambda>r. \<exists>t \<in> set (room_tanks r). tank_level t \<le> 25) rooms)"
    by (simp add: lowLevelTanks_eq)
next
  have "is_low publisher_config = (\<lambda>t. tank_level t \<le> 25)"
    by (simp add: is_low_def fun_eq_iff)
  moreover have "low_tank_of publisher_config =
      (\<lambda>t. \<lparr>lt_id = tank_id t, lt_name = tank_name t, lt_level = tank_level t,
                   lt_lastUpdated = tank_lastUpdated t, lt_threshold = 25,
                   lt_deficit = Number_toFixed (fl64 (25 - tank_level t)) 2\<rparr>)"
    by (simp add: low_tank_of_def fun_eq_iff)
  ultimately show "low_room_of publisher_config r =
     \<lparr>lr_roomId = room_id r,
      lr_totalTanks = length (room_tanks r),
      lr_lowLevelTanks = length (filter (\<lambda>t. tank_level t \<le> 25) (room_tanks r)),
      lr_tanks =
        map (\<lambda>t. \<lparr>lt_id = tank_id t, lt_name = tank_name t, lt_level = tank_level t,
                   lt_lastUpdated = tank_lastUpdated t, lt_threshold = 25,
                   lt_deficit = Number_toFixed (fl64 (25 - tank_level t)) 2\<rparr>)
          (filter (\<lambda>t. tank_level t \<le> 25) (room_tanks r))\<rparr>"
    by (simp add: low_room_of_def lowTanks_def)
next
  show "published MQTT_ALERT_TOPIC (checkTankLevels publisher_config clk rooms w) =
     published MQTT_ALERT_TOPIC w @
       (if \<exists>r \<in> set rooms. \<exists>t \<in> set (room_tanks r). tank_level t \<le> 25
        then [AlertJSON (alertData publisher_config (clk (ticks w)) (clk (ticks w + 1)) rooms)]
        else [])"
    by (simp add: published_alert_checkTankLevels has_low_iff)
next
  show "d_rooms (a_details (alertData publisher_config t1 t2 rooms)) =
     lowLevelTanks publisher_config rooms"
    by (simp add: alertData_def)
qed

text \<open>
  A snapshot of two rooms: room A has low tanks, room B has none. The alert lists room A
  only.
\<close>

lemma lowLevelTanks_example:
  "lowLevelTanks publisher_config [room_a, room_b] =
       [\<lparr>lr_roomId = ''A'', lr_totalTanks = 3, lr_lowLevelTanks = 2,
         lr_tanks =
           [\<lparr>lt_id = ''1'', lt_name = ''Tank 1'', lt_level = 10, lt_lastUpdated = ''t'',
             lt_threshold = 25, lt_deficit = 15\<rparr>,
            \<lparr>lt_id = ''2'', lt_name = ''Tank 2'', lt_level = 25, lt_lastUpdated = ''t'',
             lt_threshold = 25, lt_deficit = 0\<rparr>]\<rparr>]"
proof -
  have "Number_toFixed (fl64 15) 2 = 15" and "Number_toFixed (fl64 0) 2 = 0"
    by (rule deficit_int; simp)+
  then show ?thesis
    by (simp add: lowLevelTanks_def reduce_room_def lowTanks_def is_low_def low_room_of_def
        low_tank_of_def room_a_def room_b_def tank_at_def)
qed

theorem alert_summary_witness:
  "published MQTT_ALERT_TOPIC
     (checkTankLevels publisher_config (clock_from 0) [room_a, room_b] world0) =
     [AlertJSON
       \<lparr>a_event = ''LOW_LEVEL_ALERT'', a_timestamp = 0,
        a_details =
          \<lparr>d_timestamp = 1, d_totalRooms = 2, d_totalTanks = 5,
           d_rooms =
             [\<lparr>lr_roomId = ''A'', lr_totalTanks = 3, lr_lowLevelTanks = 2,
               lr_tanks =
                 [\<lparr>lt_id = ''1'', lt_name = ''Tank 1'', lt_level = 10, lt_lastUpdated = ''t'',
                   lt_threshold = 25, lt_deficit = 15\<rparr>,
                  \<lparr>lt_id = ''2'', lt_name = ''Tank 2'', lt_level = 25, lt_lastUpdated = ''t'',
                   lt_threshold = 25, lt_deficit = 0\<rparr>]\<rparr>]\<rparr>,
        a_mqttTopic = ''tankscape/alerts''\<rparr>]"
proof -
  have low: "\<exists>r \<in> set [room_a, room_b]. \<exists>t \<in> set (room_tanks r). tank_level t \<le> 25"
    by (simp add: room_a_def tank_at_def)
  have pub0: "published MQTT_ALERT_TOPIC world0 = []"
    by (simp add: published_def world0_def)
  have tt: "totalTanks [room_a, room_b] = 5"
    by (simp add: totalTanks_def room_a_def room_b_def)
  from alert_summary [of "[room_a, room_b]" room_a "clock_from 0" world0 0 1]
  have "published MQTT_ALERT_TOPIC
     (checkTankLevels publisher_config (clock_from 0) [room_a, room_b] world0) =
     [AlertJSON (alertData publisher_config (clock_from 0 (ticks world0))
         (clock_from 0 (ticks world0 + 1)) [room_a, room_b])]"
    by (simp only: low pub0 if_True append_Nil)
  then show ?thesis
    by (simp add: alertData_def lowLevelTanks_example tt clock_from_def world0_def
        MQTT_ALERT_TOPIC_def)
qed

section \<open>Claims about the ingest handler\<close>

text \<open>
  C4. When no tank of the snapshot is at or below 25, and so when the snapshot has no
  rooms, \<open>checkTankLevels\<close> produces no alert and leaves the world as it was. The
  handler publishes on the alerts topic only when some tank is at or below 25, and then
  it publishes one alert; a body without rooms publishes nothing there.
\<close>

theorem no_alert_without_low_tank:
  "(\<not> (\<exists>r \<in> set rooms. \<exists>t \<in> set (room_tanks r). tank_level t \<le> 25) \<longrightarrow>
      checkTankLevels publisher_config clk rooms w = w) \<and>
   checkTankLevels publisher_config clk [] w = w \<and>
   (\<exists>w'. publish_handler publisher_config clk data w = Inr w' \<and>
      published MQTT_ALERT_TOPIC w' =
        published MQTT_ALERT_TOPIC w @
          (case snapshot_rooms data of
             None \<Rightarrow> []
           | Some rs \<Rightarrow>
               if \<exists>r \<in> set rs. \<exists>t \<in> set (room_tanks r). tank_level t \<le> 25
               then [AlertJSON
                       (alertData publisher_config (clk (ticks w + 3)) (clk (ticks w + 4)) rs)]
               else []))"
proof (intro conjI impI)
  assume "\<not> (\<exists>r \<in> set rooms. \<exists>t \<in> set (room_tanks r). tank_level t \<le> 25)"
  then have "lowLevelTanks publisher_config rooms = []"
    using has_low_iff [of publisher_config rooms] by simp
  then show "checkTankLevels publisher_config clk rooms w = w"
    by (rule checkTankLevels_none)
next
  have "lowLevelTanks publisher_config [] = []"
    by (simp add: lowLevelTanks_def)
  then show "checkTankLevels publisher_config clk [] w = w"
    by (rule checkTankLevels_none)
next
  show "\<exists>w'. publish_handler publisher_config clk data w = Inr w' \<and>
      published MQTT_ALERT_TOPIC w' =
        published MQTT_ALERT_TOPIC w @
          (case snapshot_rooms data of
             None \<Rightarrow> []
           | Some rs \<Rightarrow>
               if \<exists>r \<in> set rs. \<exists>t \<in> set (room_tanks r). tank_level t \<le> 25
               then [AlertJSON
                       (alertData publisher_config (clk (ticks w + 3)) (clk (ticks w + 4)) rs)]
               else [])"
  proof (cases "snapshot_rooms data")
    case None
    then show ?thesis
      by (simp add: publish_handler_no_rooms published_def)
  next
    case (Some rs)
    from published_handler [OF Some, of publisher_config clk w]
    obtain w' where "publish_handler publisher_config clk data w = Inr w'"
      and "published MQTT_ALERT_TOPIC w' = published MQTT_ALERT_TOPIC w @
        (if lowLevelTanks publisher_config rs \<noteq> []
         then [AlertJSON (alertData publisher_config (clk (ticks w + 3)) (clk (ticks w + 4)) rs)]
         else [])"
      by blast
    then show ?thesis
      by (simp add: Some has_low_iff)
  qed
qed

text \<open>Room B alone has no low tank: nothing is published on the alerts topic.\<close>

theorem no_alert_without_low_tank_witness:
  "\<not> (\<exists>r \<in> set [room_b]. \<exists>t \<in> set (room_tanks r). tank_level t \<le> 25) \<and>
   checkTankLevels publisher_config (clock_from 0) [room_b] world0 = world0 \<and>
   (\<exists>w'. publish_handler publisher_config (clock_from 0) snapshot_b world0 = Inr w' \<and>
         published MQTT_ALERT_TOPIC w' = [])"
proof -
  have no: "\<not> (\<exists>r \<in> set [room_b]. \<exists>t \<in> set (room_tanks r). tank_level t \<le> 25)"
    by (simp add: room_b_def tank_at_def)
  have pub0: "published MQTT_ALERT_TOPIC world0 = []"
    by (simp add: published_def world0_def)
  from no_alert_without_low_tank [of "[room_b]" "clock_from 0" world0 snapshot_b]
  show ?thesis using no pub0 by (simp add: snapshot_rooms_examples)
qed

text \<open>
  C6. What the handler publishes on the raw-data topic is the body it received, as it
  received it: for a snapshot that has its rooms, each with its tanks, it publishes
  exactly that one payload, whatever the levels are; for any other body it publishes
  nothing there.
\<close>

theorem raw_snapshot_republished:
  "\<exists>w'. publish_handler publisher_config clk data w = Inr w' \<and>
      published MQTT_TOPIC w' =
        published MQTT_TOPIC w @
          (case snapshot_rooms data of None \<Rightarrow> [] | Some rooms \<Rightarrow> [SnapshotJSON data])"
proof (cases "snapshot_rooms data")
  case None
  then show ?thesis
    using topics_distinct by (simp add: publish_handler_no_rooms published_def)
next
  case (Some rooms)
  from published_handler [OF Some, of publisher_config clk w]
  show ?thesis by (auto simp add: Some)
qed

text \<open>
  The snapshot of rooms A and B is published as it came; a body whose room C has no
  tanks is not published.
\<close>

theorem raw_snapshot_republished_witness:
  "(\<exists>w'. publish_handler publisher_config (clock_from 0) snapshot_ab world0 = Inr w' \<and>
      published MQTT_TOPIC w' = [SnapshotJSON snapshot_ab]) \<and>
   (\<exists>w'. publish_handler publisher_config (clock_from 0) snapshot_no_tanks world0 = Inr w' \<and>
      published MQTT_TOPIC w' = [])"
proof -
  have pub0: "published MQTT_TOPIC world0 = []"
    by (simp add: published_def world0_def)
  from raw_snapshot_republished [of "clock_from 0" snapshot_ab world0]
    raw_snapshot_republished [of "clock_from 0" snapshot_no_tanks world0]
  show ?thesis using pub0 by (simp add: snapshot_rooms_examples)
qed

text \<open>
  C7. For a body without rooms, and likewise for a body one of whose rooms has no
  tanks, the handler does not let the exception out: it returns normally, having logged
  the error on the console and in the log file and answered with status 500 and the
  fixed message. Nothing is published.
\<close>

theorem missing_rooms_answered_500:
  assumes "snapshot_rooms data = None"
  shows "publish_handler publisher_config clk data w =
     Inr \<lparr>ticks = ticks w + 3,
          trace = trace w @
            [ConsoleLog ERROR (clk (ticks w)) ''Error publishing data:'',
             ConsoleData ERROR (ErrorObject TypeError),
             AppendFile (clk (ticks w + 2)) (ErrorRecord (clk (ticks w + 1)) TypeError),
             Response 500 (Error ''Failed to publish data'')]\<rparr>"
  using assms by (rule publish_handler_no_rooms)

theorem missing_rooms_answered_500_witness:
  "b_rooms snapshot_no_rooms = None \<and> snapshot_rooms snapshot_no_rooms = None \<and>
   publish_handler publisher_config (clock_from 0) snapshot_no_rooms world0 =
     Inr \<lparr>ticks = 3,
          trace =
            [ConsoleLog ERROR 0 ''Error publishing data:'',
             ConsoleData ERROR (ErrorObject TypeError),
             AppendFile 2 (ErrorRecord 1 TypeError),
             Response 500 (Error ''Failed to publish data'')]\<rparr>"
proof -
  have b: "b_rooms snapshot_no_rooms = None"
    by (simp add: snapshot_no_rooms_def)
  have sr: "snapshot_rooms snapshot_no_rooms = None"
    by (simp add: snapshot_rooms_def b)
  from missing_rooms_answered_500 [of snapshot_no_rooms "clock_from 0" world0, OF sr]
  show ?thesis
    by (simp add: b sr world0_def clock_from_def)
qed

section \<open>Claims about purity and configuration\<close>

text \<open>
  C5, as the program has it. \<open>checkTankLevels\<close> is a function of the snapshot and of
  the clock: when no tank is at or below 25 it does nothing; otherwise it reads the
  clock twice for the two time stamps of the alert, publishes the alert on the alerts
  topic, reads the clock a third time and appends the alert to the log file. Everything
  in the alert but its two time stamps is determined by the snapshot, and the result
  depends on the clock through these three readings only.
\<close>

theorem evaluator_deterministic_given_clock:
  "checkTankLevels publisher_config clk rooms w =
     (if \<exists>r \<in> set rooms. \<exists>t \<in> set (room_tanks r). tank_level t \<le> 25
      then \<lparr>ticks = ticks w + 3,
            trace = trace w @
              [Publish MQTT_ALERT_TOPIC
                 (AlertJSON (alertData publisher_config (clk (ticks w)) (clk (ticks w + 1)) rooms)),
               AppendFile (clk (ticks w + 2))
                 (AlertRecord (alertData publisher_config (clk (ticks w)) (clk (ticks w + 1)) rooms))]\<rparr>
      else w) \<and>
   alertData publisher_config t1 t2 rooms =
     (alertData publisher_config t1' t2' rooms)
       \<lparr>a_timestamp := t1,
        a_details := (a_details (alertData publisher_config t1' t2' rooms))\<lparr>d_timestamp := t2\<rparr>\<rparr>"
proof (intro conjI)
  show "checkTankLevels publisher_config clk rooms w =
     (if \<exists>r \<in> set rooms. \<exists>t \<in> set (room_tanks r). tank_level t \<le> 25
      then \<lparr>ticks = ticks w + 3,
            trace = trace w @
              [Publish MQTT_ALERT_TOPIC
                 (AlertJSON (alertData publisher_config (clk (ticks w)) (clk (ticks w + 1)) rooms)),
               AppendFile (clk (ticks w + 2))
                 (AlertRecord (alertData publisher_config (clk (ticks w)) (clk (ticks w + 1)) rooms))]\<rparr>
      else w)"
  proof (cases "lowLevelTanks publisher_config rooms = []")
    case True
    then show ?thesis
      using has_low_iff [of publisher_config rooms] by (simp add: checkTankLevels_none)
  next
    case False
    then show ?thesis
      using has_low_iff [of publisher_config rooms] by (simp add: checkTankLevels_some)
  qed
next
  show "alertData publisher_config t1 t2 rooms =
     (alertData publisher_config t1' t2' rooms)
       \<lparr>a_timestamp := t1,
        a_details := (a_details (alertData publisher_config t1' t2' rooms))\<lparr>d_timestamp := t2\<rparr>\<rparr>"
    by (simp add: alertData_def)
qed

text \<open>
  Room A evaluated in the empty world by a clock that starts at 0: the alert is stamped
  0 and 1, the log entry 2.
\<close>

theorem evaluator_deterministic_given_clock_witness:
  "(\<exists>r \<in> set [room_a]. \<exists>t \<in> set (room_tanks r). tank_level t \<le> 25) \<and>
   checkTankLevels publisher_config (clock_from 0) [room_a] world0 =
     \<lparr>ticks = 3,
      trace =
        [Publish MQTT_ALERT_TOPIC (AlertJSON (alertData publisher_config 0 1 [room_a])),
         AppendFile 2 (AlertRecord (alertData publisher_config 0 1 [room_a]))]\<rparr>"
proof -
  have low: "\<exists>r \<in> set [room_a]. \<exists>t \<in> set (room_tanks r). tank_level t \<le> 25"
    by (simp add: room_a_def tank_at_def)
  from evaluator_deterministic_given_clock [of "clock_from 0" "[room_a]" world0]
  have "checkTankLevels publisher_config (clock_from 0) [room_a] world0 =
     \<lparr>ticks = ticks world0 + 3,
      trace = trace world0 @
        [Publish MQTT_ALERT_TOPIC
           (AlertJSON (alertData publisher_config (clock_from 0 (ticks world0))
              (clock_from 0 (ticks world0 + 1)) [room_a])),
         AppendFile (clock_from 0 (ticks world0 + 2))
           (AlertRecord (alertData publisher_config (clock_from 0 (ticks world0))
              (clock_from 0 (ticks world0 + 1)) [room_a]))]\<rparr>"
    by (simp only: low if_True)
  then show ?thesis using low
    by (simp add: world0_def clock_from_def)
qed

text \<open>
  The claim as the specification words it fails: evaluating room A has effects (the
  trace grows), and the same snapshot evaluated in the same world at another time gives
  another alert.
\<close>

theorem evaluator_pure_counterexample:
  "trace (checkTankLevels publisher_config (clock_from 0) [room_a] world0) \<noteq> trace world0 \<and>
   published MQTT_ALERT_TOPIC (checkTankLevels publisher_config (clock_from 1000) [room_a] world0) \<noteq>
   published MQTT_ALERT_TOPIC (checkTankLevels publisher_config (clock_from 0) [room_a] world0)"
proof -
  have "tank_at ''1'' 10 \<in> set (room_tanks room_a)"
    by (simp add: room_a_def)
  moreover have "tank_level (tank_at ''1'' 10) \<le> LOW_LEVEL_THRESHOLD publisher_config"
    by (simp add: tank_at_def)
  ultimately have low: "lowLevelTanks publisher_config [room_a] \<noteq> []"
    unfolding has_low_iff by (intro bexI [of _ room_a] bexI [of _ "tank_at ''1'' 10"]) simp_all
  show ?thesis
    by (simp add: checkTankLevels_some [OF low] published_def world0_def clock_from_def
        alertData_def)
qed

text \<open>
  C9. The high threshold is never read: the handler and \<open>checkTankLevels\<close> give the
  same result (response, publications, log entries, console lines) whatever its value,
  in particular with any value in place of 90.
\<close>

theorem high_threshold_unused:
  "publish_handler (cfg\<lparr>HIGH_LEVEL_THRESHOLD := h\<rparr>) clk data w = publish_handler cfg clk data w \<and>
   checkTankLevels (cfg\<lparr>HIGH_LEVEL_THRESHOLD := h\<rparr>) clk rooms w = checkTankLevels cfg clk rooms w \<and>
   publish_handler \<lparr>LOW_LEVEL_THRESHOLD = 25, HIGH_LEVEL_THRESHOLD = h\<rparr> clk data w =
     publish_handler publisher_config clk data w"
proof -
  have low: "is_low (cfg\<lparr>HIGH_LEVEL_THRESHOLD := h\<rparr>) = is_low cfg" for cfg
    by (simp add: is_low_def fun_eq_iff)
  have tanks: "lowTanks (cfg\<lparr>HIGH_LEVEL_THRESHOLD := h\<rparr>) = lowTanks cfg" for cfg
    by (simp add: lowTanks_def fun_eq_iff low)
  have tank: "low_tank_of (cfg\<lparr>HIGH_LEVEL_THRESHOLD := h\<rparr>) = low_tank_of cfg" for cfg
    by (simp add: low_tank_of_def fun_eq_iff)
  have room: "low_room_of (cfg\<lparr>HIGH_LEVEL_THRESHOLD := h\<rparr>) = low_room_of cfg" for cfg
    by (simp add: low_room_of_def fun_eq_iff tanks tank)
  have red: "reduce_room (cfg\<lparr>HIGH_LEVEL_THRESHOLD := h\<rparr>) = reduce_room cfg" for cfg
    by (simp add: reduce_room_def fun_eq_iff tanks room)
  have lows: "lowLevelTanks (cfg\<lparr>HIGH_LEVEL_THRESHOLD := h\<rparr>) = lowLevelTanks cfg" for cfg
    by (simp add: lowLevelTanks_def fun_eq_iff red)
  have al: "alertData (cfg\<lparr>HIGH_LEVEL_THRESHOLD := h\<rparr>) = alertData cfg" for cfg
    by (simp add: alertData_def fun_eq_iff lows)
  have chk: "checkTankLevels (cfg\<lparr>HIGH_LEVEL_THRESHOLD := h\<rparr>) = checkTankLevels cfg" for cfg
    by (simp add: checkTankLevels_def fun_eq_iff lows al)
  have ldr: "lowLevelData_rooms (cfg\<lparr>HIGH_LEVEL_THRESHOLD := h\<rparr>) = lowLevelData_rooms cfg" for cfg
    by (simp add: lowLevelData_rooms_def fun_eq_iff low)
  have ptry: "publish_try (cfg\<lparr>HIGH_LEVEL_THRESHOLD := h\<rparr>) = publish_try cfg" for cfg
    by (simp add: publish_try_def fun_eq_iff chk ldr Let_def cong: option.case_cong if_cong)
  have han: "publish_handler (cfg\<lparr>HIGH_LEVEL_THRESHOLD := h\<rparr>) = publish_handler cfg" for cfg
    by (simp add: publish_handler_def fun_eq_iff ptry cong: sum.case_cong)
  have "\<lparr>LOW_LEVEL_THRESHOLD = 25, HIGH_LEVEL_THRESHOLD = h\<rparr> =
        publisher_config\<lparr>HIGH_LEVEL_THRESHOLD := h\<rparr>"
    by (simp add: publisher_config_def)
  then show ?thesis
    by (simp only: han chk simp_thms)
qed

section \<open>Invariants of the alert\<close>

lemma low_room_of_invariant:
  assumes "lowTanks cfg r \<noteq> []"
  shows "lr_lowLevelTanks (low_room_of cfg r) = length (lr_tanks (low_room_of cfg r)) \<and>
         1 \<le> lr_lowLevelTanks (low_room_of cfg r) \<and>
         lr_lowLevelTanks (low_room_of cfg r) \<le> lr_totalTanks (low_room_of cfg r)"
proof -
  have "0 < length (lowTanks cfg r)" using assms by simp
  then show ?thesis
    by (simp add: low_room_of_def lowTanks_def Suc_le_eq)
qed

lemma low_tank_of_invariant:
  assumes "d \<in> set (lr_tanks (low_room_of cfg r))"
  shows "lt_level d \<le> LOW_LEVEL_THRESHOLD cfg \<and> lt_threshold d = LOW_LEVEL_THRESHOLD cfg \<and>
         0 \<le> lt_deficit d"
proof -
  from assms obtain t where t: "is_low cfg t" and d: "d = low_tank_of cfg t"
    by (auto simp add: low_room_of_def lowTanks_def)
  from t have "0 \<le> LOW_LEVEL_THRESHOLD cfg - tank_level t"
    by (simp add: is_low_def)
  then have "0 \<le> Number_toFixed (fl64 (LOW_LEVEL_THRESHOLD cfg - tank_level t)) 2"
    by (intro Number_toFixed_nonneg fl64_nonneg)
  with t show ?thesis
    by (simp add: d low_tank_of_def is_low_def)
qed

text \<open>
  C10. Whatever \<open>checkTankLevels\<close> publishes is an alert each of whose room entries
  has a low-tank count equal to the length of its list of tanks, at least 1 and at most
  the number of tanks of the room, and each tank listed has a level of at most 25, the
  threshold 25 and a deficit that is not negative.
\<close>

theorem alert_entries_invariant:
  assumes "trace (checkTankLevels publisher_config clk rooms w) = trace w @ evs"
    and "Publish topic (AlertJSON a) \<in> set evs"
    and "e \<in> set (d_rooms (a_details a))"
  shows "lr_lowLevelTanks e = length (lr_tanks e) \<and>
         1 \<le> lr_lowLevelTanks e \<and>
         lr_lowLevelTanks e \<le> lr_totalTanks e \<and>
         (\<forall>d \<in> set (lr_tanks e). lt_level d \<le> 25 \<and> lt_threshold d = 25 \<and> 0 \<le> lt_deficit d)"
proof -
  have low: "lowLevelTanks publisher_config rooms \<noteq> []"
  proof
    assume "lowLevelTanks publisher_config rooms = []"
    then have "checkTankLevels publisher_config clk rooms w = w"
      by (rule checkTankLevels_none)
    with assms(1) have "evs = []" by simp
    with assms(2) show False by simp
  qed
  from assms(1) have "evs =
      [Publish MQTT_ALERT_TOPIC
         (AlertJSON (alertData publisher_config (clk (ticks w)) (clk (ticks w + 1)) rooms)),
       AppendFile (clk (ticks w + 2))
         (AlertRecord (alertData publisher_config (clk (ticks w)) (clk (ticks w + 1)) rooms))]"
    by (simp add: checkTankLevels_some [OF low])
  with assms(2) have "a = alertData publisher_config (clk (ticks w)) (clk (ticks w + 1)) rooms"
    by simp
  with assms(3) have "e \<in> set (lowLevelTanks publisher_config rooms)"
    by (simp add: alertData_def)
  then obtain r where r: "lowTanks publisher_config r \<noteq> []"
    and e: "e = low_room_of publisher_config r"
    by (auto simp add: lowLevelTanks_eq)
  from low_room_of_invariant [OF r] low_tank_of_invariant [of _ publisher_config r]
  show ?thesis
    by (simp add: e)
qed

text \<open>
  The alert for rooms A and B has the one entry of room A, with two of three tanks; the
  tank at level 10 is listed in it.
\<close>

theorem alert_entries_invariant_witness:
  "lr_lowLevelTanks (low_room_of publisher_config room_a) = 2 \<and>
   lr_totalTanks (low_room_of publisher_config room_a) = 3 \<and>
   length (lr_tanks (low_room_of publisher_config room_a)) = 2 \<and>
   lt_level (low_tank_of publisher_config (tank_at ''1'' 10)) \<le> 25 \<and>
   lt_threshold (low_tank_of publisher_config (tank_at ''1'' 10)) = 25 \<and>
   0 \<le> lt_deficit (low_tank_of publisher_config (tank_at ''1'' 10))"
proof -
  have lowa: "lowTanks publisher_config room_a = [tank_at ''1'' 10, tank_at ''2'' 25]"
    by (simp add: lowTanks_def is_low_def room_a_def tank_at_def)
  have lowb: "lowTanks publisher_config room_b = []"
    by (simp add: lowTanks_def is_low_def room_b_def tank_at_def)
  have lows: "lowLevelTanks publisher_config [room_a, room_b] = [low_room_of publisher_config room_a]"
    by (simp add: lowLevelTanks_eq lowa lowb)
  have tr: "trace (checkTankLevels publisher_config (clock_from 0) [room_a, room_b] world0) =
      trace world0 @
      [Publish MQTT_ALERT_TOPIC (AlertJSON (alertData publisher_config 0 1 [room_a, room_b])),
       AppendFile 2 (AlertRecord (alertData publisher_config 0 1 [room_a, room_b]))]"
    by (simp add: checkTankLevels_some lows world0_def clock_from_def)
  have mem: "Publish MQTT_ALERT_TOPIC (AlertJSON (alertData publisher_config 0 1 [room_a, room_b])) \<in>
      set [Publish MQTT_ALERT_TOPIC (AlertJSON (alertData publisher_config 0 1 [room_a, room_b])),
           AppendFile 2 (AlertRecord (alertData publisher_config 0 1 [room_a, room_b]))]"
    by simp
  have ent: "low_room_of publisher_config room_a \<in>
      set (d_rooms (a_details (alertData publisher_config 0 1 [room_a, room_b])))"
    by (simp add: alertData_def lows)
  have cnt: "lr_lowLevelTanks (low_room_of publisher_config room_a) = 2"
    by (simp add: low_room_of_def lowa)
  have tot: "lr_totalTanks (low_room_of publisher_config room_a) = 3"
    by (simp add: low_room_of_def room_a_def)
  have det: "low_tank_of publisher_config (tank_at ''1'' 10) \<in>
      set (lr_tanks (low_room_of publisher_config room_a))"
    by (simp add: low_room_of_def lowa)
  from alert_entries_invariant [OF tr mem ent] cnt tot det
  show ?thesis by auto
qed

section \<open>Claims about the alert consumers\<close>

lemma deliver_returns:
  assumes "\<And>topic message w. \<exists>w'. h topic message w = Inr w'"
  shows "\<exists>w'. deliver h ms w = Inr w'"
proof (induction ms arbitrary: w)
  case Nil
  show ?case by simp
next
  case (Cons m ms)
  obtain topic message where m: "m = (topic, message)" by (cases m)
  from assms obtain w1 where "h topic message w = Inr w1" by blast
  with Cons.IH [of w1] show ?case by (simp add: m)
qed

lemma on_message_returns: "\<exists>w'. on_message clk parse topic message w = Inr w'"
  by (simp add: on_message_def split: option.splits)

lemma on_message_webhook_returns:
  "\<exists>w'. on_message_webhook clk parse fetch topic message w = Inr w'"
  by (simp add: on_message_webhook_def split: option.splits)

lemma on_message_malformed:
  "parse message = None \<Longrightarrow>
   on_message clk parse topic message w =
     Inr \<lparr>ticks = Suc (ticks w),
          trace = trace w @
            ConsoleLog ERROR (clk (ticks w)) (''Failed to parse message on '' @ topic @ '':'') #
            (if message = [] then [] else [ConsoleData ERROR (Text message)])\<rparr>"
  by (simp add: on_message_def logToConsole_eq)

text \<open>
  C8, as the programs have it. A message that \<open>JSON.parse\<close> rejects does not end
  either consumer: the handler returns normally after one console line that names the
  failure and the topic, followed by the raw payload unless the payload is empty; no
  webhook is sent for it; the messages after it are handled from the world so reached,
  and the delivery of any sequence of messages returns normally.
\<close>

theorem malformed_message_skipped:
  assumes "parse message = None"
  shows "on_message clk parse topic message w =
     Inr \<lparr>ticks = Suc (ticks w),
          trace = trace w @
            ConsoleLog ERROR (clk (ticks w)) (''Failed to parse message on '' @ topic @ '':'') #
            (if message = [] then [] else [ConsoleData ERROR (Text message)])\<rparr> \<and>
   on_message_webhook clk parse fetch topic message w = on_message clk parse topic message w \<and>
   deliver (on_message clk parse) ((topic, message) # ms) w =
     deliver (on_message clk parse) ms
       \<lparr>ticks = Suc (ticks w),
        trace = trace w @
          ConsoleLog ERROR (clk (ticks w)) (''Failed to parse message on '' @ topic @ '':'') #
          (if message = [] then [] else [ConsoleData ERROR (Text message)])\<rparr> \<and>
   (\<exists>w'. deliver (on_message clk parse) ((topic, message) # ms) w = Inr w') \<and>
   (\<exists>w'. deliver (on_message_webhook clk parse fetch) ((topic, message) # ms) w = Inr w')"
proof (intro conjI)
  show "on_message clk parse topic message w =
     Inr \<lparr>ticks = Suc (ticks w),
          trace = trace w @
            ConsoleLog ERROR (clk (ticks w)) (''Failed to parse message on '' @ topic @ '':'') #
            (if message = [] then [] else [ConsoleData ERROR (Text message)])\<rparr>"
    using assms by (rule on_message_malformed [of parse message])
next
  show "on_message_webhook clk parse fetch topic message w = on_message clk parse topic message w"
    using assms by (simp add: on_message_webhook_def on_message_def)
next
  show "deliver (on_message clk parse) ((topic, message) # ms) w =
     deliver (on_message clk parse) ms
       \<lparr>ticks = Suc (ticks w),
        trace = trace w @
          ConsoleLog ERROR (clk (ticks w)) (''Failed to parse message on '' @ topic @ '':'') #
          (if message = [] then [] else [ConsoleData ERROR (Text message)])\<rparr>"
    by (simp only: deliver.simps on_message_malformed [of parse message, OF assms] sum.case)
next
  show "\<exists>w'. deliver (on_message clk parse) ((topic, message) # ms) w = Inr w'"
    by (rule deliver_returns) (rule on_message_returns)
next
  show "\<exists>w'. deliver (on_message_webhook clk parse fetch) ((topic, message) # ms) w = Inr w'"
    by (rule deliver_returns) (rule on_message_webhook_returns)
qed

text \<open>The payload \<open>not json\<close> on the alerts topic: two console lines, no webhook.\<close>

theorem malformed_message_skipped_witness:
  "parse_nothing ''not json'' = None \<and>
   on_message_webhook (clock_from 0) parse_nothing fetch_ok MQTT_ALERT_TOPIC ''not json'' world0 =
     Inr \<lparr>ticks = 1,
          trace =
            [ConsoleLog ERROR 0 ''Failed to parse message on tankscape/alerts:'',
             ConsoleData ERROR (Text ''not json'')]\<rparr>"
proof -
  have p: "parse_nothing ''not json'' = None"
    by (simp add: parse_nothing_def)
  from malformed_message_skipped
    [of parse_nothing "''not json''" "clock_from 0" MQTT_ALERT_TOPIC world0 fetch_ok "[]", OF p]
  show ?thesis
    by (simp add: p world0_def clock_from_def MQTT_ALERT_TOPIC_def)
qed

text \<open>
  The claim as the specification words it fails for the empty payload, which is not
  JSON: \<open>logToConsole\<close> prints its third argument only if it is truthy, and the empty
  string is not, so the console shows the failure line alone.
\<close>

theorem empty_payload_not_logged_counterexample:
  "parse_nothing '''' = None \<and>
   on_message (clock_from 0) parse_nothing MQTT_ALERT_TOPIC '''' world0 =
     Inr \<lparr>ticks = 1,
          trace = [ConsoleLog ERROR 0 ''Failed to parse message on tankscape/alerts:'']\<rparr> \<and>
   on_message_webhook (clock_from 0) parse_nothing fetch_ok MQTT_ALERT_TOPIC '''' world0 =
     Inr \<lparr>ticks = 1,
          trace = [ConsoleLog ERROR 0 ''Failed to parse message on tankscape/alerts:'']\<rparr>"
  by (simp add: parse_nothing_def on_message_def on_message_webhook_def logToConsole_eq
      world0_def clock_from_def MQTT_ALERT_TOPIC_def)

end
